theory Spec2Isabelle
  imports Complex_Main
begin

section \<open>Numbers, dates and optional JSON fields\<close>

text \<open>
  The routes are TypeScript; every number in them is a JavaScript number, a binary64
  float. A number of the model is \<open>NaN\<close>, one of the two infinities, or a finite value,
  kept as the rational it is.

  \<^item> Counts, timestamps in milliseconds, day counts and the totals of day counts are
    whole numbers, which binary64 holds exactly below \<open>2^53\<close>: \<open>num_add\<close>, \<open>num_sub\<close>
    and \<open>num_mul\<close> are exact on finite values.
  \<^item> The quotients \<open>total / count\<close> are taken exactly. The binary64 rounding of a
    quotient can change what \<open>toFixed(1)\<close> prints only where the quotient lies at the
    midpoint between two tenths (within the float's last place), so the statements below
    about means and ratios say "a nearest tenth" and fix no rule for a tie. A count
    divided by 4 is exact in binary64 as well.
  \<^item> Division by zero is as in JavaScript: \<open>0 / 0\<close> is \<open>NaN\<close>, any other finite value
    over zero is an infinity. The divisors of the source are literals and counts, which
    are never negative, so the zero is \<open>+0\<close>.
  \<^item> Story points are arbitrary JSON numbers, so their sum is taken with \<open>add64\<close>, the
    binary64 addition: the exact sum rounded to the nearest float, a tie going to the even
    significand, and to an infinity from \<open>2^1024 - 2^970\<close> on.
\<close>

datatype number = NaN | PosInf | NegInf | Num rat

fun num_add :: "number \<Rightarrow> number \<Rightarrow> number" where
  "num_add (Num a) (Num b) = Num (a + b)"
| "num_add NaN y = NaN"
| "num_add x NaN = NaN"
| "num_add PosInf NegInf = NaN"
| "num_add NegInf PosInf = NaN"
| "num_add PosInf y = PosInf"
| "num_add x PosInf = PosInf"
| "num_add NegInf y = NegInf"
| "num_add x NegInf = NegInf"

fun num_sub :: "number \<Rightarrow> number \<Rightarrow> number" where
  "num_sub (Num a) (Num b) = Num (a - b)"
| "num_sub NaN y = NaN"
| "num_sub x NaN = NaN"
| "num_sub PosInf PosInf = NaN"
| "num_sub NegInf NegInf = NaN"
| "num_sub PosInf y = PosInf"
| "num_sub x PosInf = NegInf"
| "num_sub NegInf y = NegInf"
| "num_sub x NegInf = PosInf"

fun num_mul :: "number \<Rightarrow> rat \<Rightarrow> number" where
  "num_mul (Num a) b = Num (a * b)"
| "num_mul NaN b = NaN"
| "num_mul PosInf b = (if b = 0 then NaN else if 0 < b then PosInf else NegInf)"
| "num_mul NegInf b = (if b = 0 then NaN else if 0 < b then NegInf else PosInf)"

fun num_div :: "number \<Rightarrow> rat \<Rightarrow> number" where
  "num_div (Num a) b =
     (if b = 0 then (if a = 0 then NaN else if 0 < a then PosInf else NegInf)
      else Num (a / b))"
| "num_div NaN b = NaN"
| "num_div PosInf b = (if b < 0 then NegInf else PosInf)"
| "num_div NegInf b = (if b < 0 then PosInf else NegInf)"

fun num_abs :: "number \<Rightarrow> number" where
  "num_abs (Num a) = Num \<bar>a\<bar>"
| "num_abs NaN = NaN"
| "num_abs PosInf = PosInf"
| "num_abs NegInf = PosInf"

fun num_ceil :: "number \<Rightarrow> number" where
  "num_ceil (Num a) = Num (of_int \<lceil>a\<rceil>)"
| "num_ceil x = x"

subsection \<open>Binary64 addition\<close>

text \<open>
  A positive value is brought to the form \<open>m * 2^e\<close> with \<open>2^52 \<le> m < 2^53\<close>, or with
  \<open>e = -1074\<close> and \<open>m < 2^52\<close> for a subnormal (\<open>halve\<close> for a value from \<open>2^53\<close> on,
  \<open>double\<close> below); \<open>m\<close> is rounded to a whole number, a tie going to the even one, and
  the result is that number times \<open>2^e\<close>, or an infinity when it reaches \<open>2^1024\<close>.
\<close>

definition round_half_even :: "rat \<Rightarrow> int" where
  "round_half_even m =
     (let f = \<lfloor>m\<rfloor>; d = m - of_int f
      in if d < 1 / 2 then f else if 1 / 2 < d then f + 1 else if even f then f else f + 1)"

function halve :: "rat \<Rightarrow> int \<Rightarrow> rat \<times> int" where
  "halve m e = (if 2 ^ 53 \<le> m then halve (m / 2) (e + 1) else (m, e))"
  by pat_completeness auto
termination
proof (relation "measure (\<lambda>(m, e). nat \<lfloor>m\<rfloor>)")
  show "wf (measure (\<lambda>(m, e). nat \<lfloor>m\<rfloor>))"
    by simp
next
  fix m :: rat and e :: int
  assume big: "2 ^ 53 \<le> m"
  then have "m / 2 \<le> m - 1"
    by simp
  then have "\<lfloor>m / 2\<rfloor> \<le> \<lfloor>m - 1\<rfloor>"
    by (rule floor_mono)
  moreover from big have "0 < \<lfloor>m\<rfloor>"
    by (simp add: floor_less_iff not_less [symmetric] less_floor_iff)
  ultimately show "((m / 2, e + 1), (m, e)) \<in> measure (\<lambda>(m, e). nat \<lfloor>m\<rfloor>)"
    by simp
qed

function double :: "rat \<Rightarrow> int \<Rightarrow> rat \<times> int" where
  "double m e = (if m < 2 ^ 52 \<and> - 1074 < e then double (m * 2) (e - 1) else (m, e))"
  by pat_completeness auto
termination
  by (relation "measure (\<lambda>(m, e). nat (e + 1074))") auto

declare halve.simps [simp del] double.simps [simp del]

definition scale2 :: "rat \<Rightarrow> int \<Rightarrow> rat" where
  "scale2 r e = (if 0 \<le> e then r * 2 ^ nat e else r / 2 ^ nat (- e))"

definition round64 :: "rat \<Rightarrow> number" where
  "round64 x =
     (if x = 0 then Num 0
      else
        (let a = \<bar>x\<bar>;
             (m, e) = (if 2 ^ 53 \<le> a then halve a 0 else double a 0);
             r = scale2 (of_int (round_half_even m)) e
         in if 2 ^ 1024 \<le> r then (if x < 0 then NegInf else PosInf)
            else Num (if x < 0 then - r else r)))"

definition add64 :: "number \<Rightarrow> number \<Rightarrow> number" where
  "add64 x y = (case num_add x y of Num s \<Rightarrow> round64 s | other \<Rightarrow> other)"

subsection \<open>Printing and reading a number\<close>

text \<open>
  \<open>x.toFixed(1)\<close> is the decimal numeral \<open>n / 10\<close> with one fractional digit, for the
  integer \<open>n\<close> that makes \<open>n / 10 - x\<close> closest to zero, the larger \<open>n\<close> on a tie (a
  negative \<open>x\<close> is formatted as minus the numeral of \<open>-x\<close>); for \<open>NaN\<close> and the
  infinities it is their name. From \<open>10^21\<close> on \<open>toFixed\<close> prints the number itself; a
  float that large is whole, hence its own tenth. The text is kept as the number of
  tenths. \<open>parseFloat\<close> reads the text back. The literal \<open>'0'\<close> of the source is
  \<open>Tenths 0\<close>.
\<close>

datatype fixed_text = NaN_text | Infinity_text | Minus_Infinity_text | Tenths int

fun toFixed1 :: "number \<Rightarrow> fixed_text" where
  "toFixed1 NaN = NaN_text"
| "toFixed1 PosInf = Infinity_text"
| "toFixed1 NegInf = Minus_Infinity_text"
| "toFixed1 (Num x) =
     (if x < 0 then Tenths (- \<lfloor>(- x) * 10 + 1 / 2\<rfloor>) else Tenths \<lfloor>x * 10 + 1 / 2\<rfloor>)"

fun parseFloat :: "fixed_text \<Rightarrow> number" where
  "parseFloat NaN_text = NaN"
| "parseFloat Infinity_text = PosInf"
| "parseFloat Minus_Infinity_text = NegInf"
| "parseFloat (Tenths n) = Num (of_int n / 10)"

subsection \<open>Optional fields and dates\<close>

text \<open>
  The code does two things with a timestamp field: it tests it for truthiness and it
  passes it to \<open>new Date\<close>. By these the values a field can hold fall into four kinds:
  \<^item> \<open>Undefined\<close>: the key is absent. It is falsy and \<open>new Date(undefined)\<close> is the
    invalid date, whose time value is \<open>NaN\<close>. The empty string behaves the same.
  \<^item> \<open>Null\<close>: Jira sends \<open>null\<close> for an unresolved issue's \<open>resolutiondate\<close>. It is
    falsy and \<open>new Date(null)\<close> is the epoch.
  \<^item> \<open>Present (Instant t)\<close>: a truthy value that \<open>new Date\<close> reads as the instant
    \<open>t\<close>, in milliseconds since the epoch: the ISO-8601 text Jira sends.
  \<^item> \<open>Present Unparsable\<close>: a truthy value that \<open>new Date\<close> cannot read, such as
    the text \<open>"soon"\<close>. The date is the invalid date.
  A story-point field is \<open>Undefined\<close>, \<open>Null\<close> or \<open>Present p\<close> for the number \<open>p\<close>.
\<close>

datatype 'a nullable = Undefined | Null | Present 'a

datatype stamp = Instant int | Unparsable

fun truthy :: "'a nullable \<Rightarrow> bool" where
  "truthy (Present v) = True"
| "truthy _ = False"

text \<open>A \<open>Date\<close> is its time value; a \<open>Date\<close> object is truthy whatever that value is.\<close>

datatype date = Date (getTime: number)

fun newDate :: "stamp nullable \<Rightarrow> date" where
  "newDate Undefined = Date NaN"
| "newDate Null = Date (Num 0)"
| "newDate (Present (Instant t)) = Date (Num (of_int t))"
| "newDate (Present Unparsable) = Date NaN"

section \<open>Issue records\<close>

text \<open>
  The part of Jira's search result that the routes read: \<open>issue.fields.status.name\<close>,
  \<open>issue.fields.issuetype.name\<close>, \<open>issue.fields.created\<close>,
  \<open>issue.fields.resolutiondate\<close>, \<open>issue.fields.customfield_10024\<close> and
  \<open>issue.changelog.histories\<close>, each history with its \<open>created\<close> timestamp and its
  \<open>items\<close>. The selector \<open>issue_fields\<close> is the source's \<open>fields\<close>.
\<close>

record item =
  field :: string
  toString :: string

record history =
  created :: "stamp nullable"
  items :: "item list"

record changelog =
  histories :: "history list nullable"

record named =
  name :: string

record fields =
  status :: named
  issuetype :: named
  created :: "stamp nullable"
  resolutiondate :: "stamp nullable"
  customfield_10024 :: "rat nullable"

record issue =
  issue_fields :: fields
  changelog :: "changelog nullable"

record metrics =
  leadTime :: number
  deploymentFrequency :: number
  changeFailureRate :: number
  recoveryTime :: number
  velocity :: number

section \<open>The metrics computation\<close>

definition calculateDaysBetween :: "date \<Rightarrow> date \<Rightarrow> number" where
  "calculateDaysBetween date1 date2 =
     (let diffTime = num_abs (num_sub (getTime date2) (getTime date1))
      in num_ceil (num_div diffTime (1000 * 60 * 60 * 24)))"

text \<open>
  \<open>findStatusChangeTime\<close> is two nested \<open>for\<close> loops that return from the function at
  the first matching item: \<open>find_in_items\<close> is the inner loop over one history's items,
  \<open>find_in_histories\<close> the outer loop. \<open>null\<close> is \<open>None\<close>; the date returned may be
  the invalid date.
\<close>

fun find_in_items :: "history \<Rightarrow> item list \<Rightarrow> string \<Rightarrow> date option" where
  "find_in_items h [] statusName = None"
| "find_in_items h (it # its) statusName =
     (if field it = ''status'' \<and> toString it = statusName
      then Some (newDate (history.created h))
      else find_in_items h its statusName)"

fun find_in_histories :: "history list \<Rightarrow> string \<Rightarrow> date option" where
  "find_in_histories [] statusName = None"
| "find_in_histories (h # hs) statusName =
     (case find_in_items h (items h) statusName of
        Some d \<Rightarrow> Some d
      | None \<Rightarrow> find_in_histories hs statusName)"

definition findStatusChangeTime :: "changelog nullable \<Rightarrow> string \<Rightarrow> date option" where
  "findStatusChangeTime cl statusName =
     (case cl of
        Present c \<Rightarrow>
          (case histories c of
             Present hs \<Rightarrow> find_in_histories hs statusName
           | _ \<Rightarrow> None)
      | _ \<Rightarrow> None)"

text \<open>
  The bodies of the two \<open>forEach\<close> callbacks, as steps on the pair of variables each
  one updates: \<open>(totalLeadTime, leadTimeCount)\<close> and \<open>(totalRecoveryTime, recoveryCount)\<close>.
  \<open>if (devStartTime)\<close> tests a \<open>Date\<close> object or \<open>null\<close>, so it holds for every date
  found, the invalid one included.
\<close>

definition leadTimeStep :: "issue \<Rightarrow> number \<times> nat \<Rightarrow> number \<times> nat" where
  "leadTimeStep issue acc =
     (let devStartTime = findStatusChangeTime (changelog issue) ''In Development'';
          releaseTime = newDate (resolutiondate (issue_fields issue))
      in case devStartTime of
           Some d \<Rightarrow>
             (let leadTime = calculateDaysBetween d releaseTime
              in (num_add (fst acc) leadTime, snd acc + 1))
         | None \<Rightarrow> acc)"

definition recoveryStep :: "issue \<Rightarrow> number \<times> nat \<Rightarrow> number \<times> nat" where
  "recoveryStep bug acc =
     (if truthy (created (issue_fields bug)) \<and> truthy (resolutiondate (issue_fields bug))
      then
        (let recoveryTime =
               calculateDaysBetween
                 (newDate (created (issue_fields bug)))
                 (newDate (resolutiondate (issue_fields bug)))
         in (num_add (fst acc) (num_mul recoveryTime 24), snd acc + 1))
      else acc)"

text \<open>
  \<open>issue.fields.customfield_10024 || 0\<close>: a missing value gives \<open>0\<close>, and so does the
  falsy number \<open>0\<close> itself. \<open>sum + points\<close> adds two binary64 numbers.
\<close>

fun points :: "rat nullable \<Rightarrow> number" where
  "points (Present p) = (if p = 0 then Num 0 else Num p)"
| "points _ = Num 0"

definition calculateDORAMetrics :: "issue list \<Rightarrow> metrics" where
  "calculateDORAMetrics issues =
     (let releasedIssues =
            filter (\<lambda>i. name (status (issue_fields i)) = ''Released''
                        \<and> truthy (resolutiondate (issue_fields i))) issues;
          (totalLeadTime, leadTimeCount) = fold leadTimeStep releasedIssues (Num 0, 0);
          avgLeadTime =
            (if leadTimeCount > 0
             then toFixed1 (num_div totalLeadTime (of_nat leadTimeCount))
             else Tenths 0);
          weeksPassed = 4;
          deploymentFrequency =
            toFixed1 (num_div (Num (of_nat (length releasedIssues))) weeksPassed);
          bugs = filter (\<lambda>i. name (issuetype (issue_fields i)) = ''Bug'') issues;
          releasedBugs = filter (\<lambda>b. name (status (issue_fields b)) = ''Released'') bugs;
          failureRate =
            (if length releasedIssues > 0
             then toFixed1
                    (num_mul
                       (num_div (Num (of_nat (length releasedBugs)))
                          (of_nat (length releasedIssues)))
                       100)
             else Tenths 0);
          (totalRecoveryTime, recoveryCount) = fold recoveryStep releasedBugs (Num 0, 0);
          avgRecoveryTime =
            (if recoveryCount > 0
             then toFixed1 (num_div totalRecoveryTime (of_nat recoveryCount))
             else Tenths 0);
          storyPoints =
            fold (\<lambda>issue sum. add64 sum (points (customfield_10024 (issue_fields issue))))
              issues (Num 0)
      in \<lparr>leadTime = parseFloat avgLeadTime,
          deploymentFrequency = parseFloat deploymentFrequency,
          changeFailureRate = parseFloat failureRate,
          recoveryTime = parseFloat avgRecoveryTime,
          velocity = storyPoints\<rparr>)"

text \<open>
  Both route files carry this function, \<open>calculateDaysBetween\<close> and
  \<open>findStatusChangeTime\<close> with the same statements; the one model stands for both copies.
\<close>

section \<open>The upstream call\<close>

text \<open>
  \<open>fetchJiraIssues\<close> awaits the global \<open>fetch\<close>. The URL, the \<open>Authorization\<close> header
  and the options are fixed by the environment for the length of a request, so the
  upstream is a function of the two arguments that vary, the JQL text and the field list.
  It answers \<open>Inl m\<close> when the promise rejects with an error whose message is \<open>m\<close>, and
  otherwise with a response: its \<open>ok\<close> flag, its status code, the body as \<open>text()\<close>
  gives it and the body as \<open>json()\<close> gives it (\<open>Inl m\<close> when \<open>json()\<close> rejects). The
  JSON of a search result is read at \<open>data.issues\<close> and \<open>data.total\<close>.
\<close>

record search_result =
  issues :: "issue list"
  total_field :: nat

record http_response =
  ok :: bool
  http_status :: nat
  body_text :: string
  json :: "string + search_result"

type_synonym upstream = "string \<Rightarrow> string list \<Rightarrow> string + http_response"

text \<open>The decimal numeral of a status code, as a template literal prints it.\<close>

definition digit_char :: "nat \<Rightarrow> char" where
  "digit_char d = ''0123456789'' ! d"

function show_nat :: "nat \<Rightarrow> string" where
  "show_nat n =
     (if n < 10 then [digit_char n] else show_nat (n div 10) @ [digit_char (n mod 10)])"
  by pat_completeness auto
termination
  by (relation "measure id") auto

declare show_nat.simps [simp del]

text \<open>
  The health-matrix route's \<open>fetchJiraIssues\<close> throws \<open>JIRA API error: <status>\<close> on a
  response that is not ok; the single-project route's copy appends the body text.
\<close>

definition fetchJiraIssues :: "upstream \<Rightarrow> string \<Rightarrow> string list \<Rightarrow> string + search_result" where
  "fetchJiraIssues up jql field_list =
     (case up jql field_list of
        Inl m \<Rightarrow> Inl m
      | Inr response \<Rightarrow>
          (if \<not> ok response
           then Inl (''JIRA API error: '' @ show_nat (http_status response))
           else json response))"

definition fetchJiraIssues_dora :: "upstream \<Rightarrow> string \<Rightarrow> string list \<Rightarrow> string + search_result" where
  "fetchJiraIssues_dora up jql field_list =
     (case up jql field_list of
        Inl m \<Rightarrow> Inl m
      | Inr response \<Rightarrow>
          (if \<not> ok response
           then Inl (''JIRA API error: '' @ show_nat (http_status response) @ '' - ''
                       @ body_text response)
           else json response))"

section \<open>The request handlers\<close>

text \<open>
  A handler's answer is the HTTP status code and the JSON body; \<open>NextResponse.json\<close>
  answers 200 unless a status is given. The three shapes of body the two metric routes
  send: \<open>{success: true, data}\<close> is \<open>Matrix_ok data\<close>,
  \<open>{success: true, project, totalIssues, metrics}\<close> is \<open>Dora_ok project totalIssues metrics\<close>
  and \<open>{success: false, error, details}\<close> is \<open>Failed error details\<close>. The
  \<open>console.error\<close> of the \<open>catch\<close> blocks writes a log line and is left out.
\<close>

record 'b response =
  code :: nat
  body :: 'b

datatype metrics_body =
  Matrix_ok "string \<rightharpoonup> metrics"
| Dora_ok string nat metrics
| Failed string string

subsection \<open>Health matrix\<close>

definition projects :: "string list" where
  "projects = [''DAI'', ''DGDPO'', ''DMM'', ''DE'', ''VEH'', ''CAT'']"

definition matrix_fields :: "string list" where
  "matrix_fields = [''status'', ''created'', ''resolutiondate'', ''issuetype'', ''customfield_10024'']"

definition matrix_jql :: "string \<Rightarrow> string" where
  "matrix_jql project = ''project = '' @ project @ '' AND created >= -30d''"

text \<open>
  The \<open>for\<close> loop over \<open>projects\<close> inside the \<open>try\<close>: an exception of
  \<open>fetchJiraIssues\<close> leaves the loop with the error, otherwise the project's metrics are
  stored in \<open>healthMatrix\<close> and the loop goes on.
\<close>

fun matrix_loop ::
  "upstream \<Rightarrow> string list \<Rightarrow> (string \<rightharpoonup> metrics) \<Rightarrow> string + (string \<rightharpoonup> metrics)" where
  "matrix_loop up [] healthMatrix = Inr healthMatrix"
| "matrix_loop up (project # rest) healthMatrix =
     (case fetchJiraIssues up (matrix_jql project) matrix_fields of
        Inl m \<Rightarrow> Inl m
      | Inr data \<Rightarrow>
          matrix_loop up rest (healthMatrix(project \<mapsto> calculateDORAMetrics (issues data))))"

definition GET_matrix :: "upstream \<Rightarrow> metrics_body response" where
  "GET_matrix up =
     (case matrix_loop up projects Map.empty of
        Inr healthMatrix \<Rightarrow> \<lparr>code = 200, body = Matrix_ok healthMatrix\<rparr>
      | Inl m \<Rightarrow> \<lparr>code = 500, body = Failed ''Failed to fetch health matrix'' m\<rparr>)"

subsection \<open>Single project\<close>

text \<open>
  \<open>searchParams.get\<close> gives the parameter's value or \<open>null\<close>; \<open>process.env.X\<close> gives the
  variable's value or \<open>undefined\<close>. Both are \<open>string option\<close>. A string is truthy when it
  is not empty, so \<open>x || d\<close> is \<open>d\<close> for a missing and for an empty \<open>x\<close>.
\<close>

fun str_truthy :: "string option \<Rightarrow> bool" where
  "str_truthy None = False"
| "str_truthy (Some s) = (s \<noteq> [])"

fun or_default :: "string option \<Rightarrow> string \<Rightarrow> string" where
  "or_default None d = d"
| "or_default (Some s) d = (if s = [] then d else s)"

definition dora_fields :: "string list" where
  "dora_fields =
     [''status'', ''created'', ''updated'', ''resolutiondate'', ''issuetype'', ''customfield_10024'']"

definition dora_project :: "(string \<rightharpoonup> string) \<Rightarrow> string" where
  "dora_project searchParams = or_default (searchParams ''project'') ''DAI''"

definition dora_jql :: "(string \<rightharpoonup> string) \<Rightarrow> string" where
  \<open>dora_jql searchParams =
     (let project = dora_project searchParams;
          startDate = searchParams ''startDate'';
          endDate = searchParams ''endDate'';
          jql = ''project = '' @ project;
          jql = (case startDate of
                   Some d \<Rightarrow> if d \<noteq> [] then jql @ '' AND created >= "'' @ d @ ''"'' else jql
                 | None \<Rightarrow> jql);
          jql = (case endDate of
                   Some d \<Rightarrow> if d \<noteq> [] then jql @ '' AND created <= "'' @ d @ ''"'' else jql
                 | None \<Rightarrow> jql)
      in jql)\<close>

definition GET_dora :: "upstream \<Rightarrow> (string \<rightharpoonup> string) \<Rightarrow> metrics_body response" where
  "GET_dora up searchParams =
     (case fetchJiraIssues_dora up (dora_jql searchParams) dora_fields of
        Inr data \<Rightarrow>
          \<lparr>code = 200,
           body = Dora_ok (dora_project searchParams) (total_field data)
                    (calculateDORAMetrics (issues data))\<rparr>
      | Inl m \<Rightarrow> \<lparr>code = 500, body = Failed ''Failed to fetch DORA metrics'' m\<rparr>)"

subsection \<open>Health check\<close>

record health_body =
  health_status :: string
  message :: string
  jiraConnected :: bool
  domain :: string

definition GET_health :: "(string \<rightharpoonup> string) \<Rightarrow> health_body response" where
  "GET_health env =
     (let jiraConnected = (str_truthy (env ''JIRA_EMAIL'') \<and> str_truthy (env ''JIRA_API_TOKEN''))
      in \<lparr>code = 200,
          body = \<lparr>health_status = ''ok'',
                  message = ''DMINT Dashboard API is running'',
                  jiraConnected = jiraConnected,
                  domain = or_default (env ''JIRA_DOMAIN'') ''Not configured''\<rparr>\<rparr>)"

section \<open>The notions the specification uses\<close>

text \<open>
  Rounding to one decimal place, a tie going up, as \<open>toFixed(1)\<close> does on a value that
  is not negative.
\<close>

definition round1 :: "rat \<Rightarrow> rat" where
  "round1 x = of_int (round (x * 10)) / 10"

text \<open>
  \<open>r\<close> is \<open>x\<close> rounded to one decimal place, whichever way a tie goes: a multiple of
  \<open>1/10\<close> at most \<open>1/20\<close> away from \<open>x\<close>.
\<close>

definition nearest_tenth :: "rat \<Rightarrow> rat \<Rightarrow> bool" where
  "nearest_tenth x r \<longleftrightarrow> of_int \<lfloor>r * 10\<rfloor> = r * 10 \<and> \<bar>r - x\<bar> \<le> 1 / 20"

text \<open>
  \<open>rounded_mean ds v\<close>: the number \<open>v\<close> is the mean of the numbers \<open>ds\<close> rounded to one
  decimal place, and \<open>0\<close> when \<open>ds\<close> is empty. The total \<open>num_sum ds\<close> is \<open>NaN\<close> as soon
  as one of the numbers is; the mean of such a list is \<open>NaN\<close>.
\<close>

definition num_sum :: "number list \<Rightarrow> number" where
  "num_sum ds = foldl num_add (Num 0) ds"

definition rounded_mean :: "number list \<Rightarrow> number \<Rightarrow> bool" where
  "rounded_mean ds v =
     (if ds = [] then v = Num 0
      else
        (case num_sum ds of
           Num s \<Rightarrow>
             (case v of
                Num r \<Rightarrow> nearest_tenth (s / of_nat (length ds)) r
              | _ \<Rightarrow> False)
         | other \<Rightarrow> v = other))"

text \<open>
  The mean as the code takes it: \<open>0\<close> for no numbers, otherwise the total over the
  count, printed by \<open>toFixed(1)\<close> and read back.
\<close>

definition mean1 :: "number list \<Rightarrow> number" where
  "mean1 ds =
     parseFloat
       (if 0 < length ds then toFixed1 (num_div (num_sum ds) (of_nat (length ds)))
        else Tenths 0)"

text \<open>
  The time value of a timestamp field, and the whole days between two time values: the
  difference in milliseconds over the milliseconds of a day, rounded up; \<open>NaN\<close> when one
  of them is not an instant.
\<close>

definition time_of :: "stamp nullable \<Rightarrow> number" where
  "time_of v = getTime (newDate v)"

fun days_between :: "number \<Rightarrow> number \<Rightarrow> number" where
  "days_between (Num a) (Num b) = Num (of_int \<lceil>\<bar>b - a\<bar> / 86400000\<rceil>)"
| "days_between x y = NaN"

text \<open>
  A released issue: its status label is \<open>Released\<close> and it carries a resolution
  timestamp. A bug: its issue-type label is \<open>Bug\<close>.
\<close>

definition released :: "issue \<Rightarrow> bool" where
  "released i \<longleftrightarrow>
     name (status (issue_fields i)) = ''Released'' \<and> truthy (resolutiondate (issue_fields i))"

definition is_bug :: "issue \<Rightarrow> bool" where
  "is_bug i \<longleftrightarrow> name (issuetype (issue_fields i)) = ''Bug''"

text \<open>
  The time value of the first history, in the order given, that holds a status
  transition to \<open>label\<close>.
\<close>

definition first_transition :: "issue \<Rightarrow> string \<Rightarrow> number option" where
  "first_transition i label =
     (case changelog i of
        Present c \<Rightarrow>
          (case histories c of
             Present hs \<Rightarrow>
               map_option (\<lambda>h. time_of (history.created h))
                 (List.find
                    (\<lambda>h. list_ex (\<lambda>it. field it = ''status'' \<and> toString it = label) (items h))
                    hs)
           | _ \<Rightarrow> None)
      | _ \<Rightarrow> None)"

text \<open>
  The lead time of an issue, in days: defined for a released issue with a transition to
  \<open>In Development\<close>, and for no other.
\<close>

definition lead_days :: "issue \<Rightarrow> number option" where
  "lead_days i =
     (if released i then
        map_option (\<lambda>start. days_between start (time_of (resolutiondate (issue_fields i))))
          (first_transition i ''In Development'')
      else None)"

text \<open>
  The recovery time of an issue, in hours: defined for a bug with status \<open>Released\<close>
  that has a creation and a resolution timestamp, and for no other.
\<close>

definition recovery_hours :: "issue \<Rightarrow> number option" where
  "recovery_hours i =
     (if is_bug i \<and> name (status (issue_fields i)) = ''Released''
         \<and> truthy (created (issue_fields i)) \<and> truthy (resolutiondate (issue_fields i))
      then Some (num_mul
                   (days_between (time_of (created (issue_fields i)))
                      (time_of (resolutiondate (issue_fields i))))
                   24)
      else None)"

text \<open>The story points of an issue, an absent value counting as \<open>0\<close>.\<close>

definition story_points :: "issue \<Rightarrow> rat" where
  "story_points i =
     (case customfield_10024 (issue_fields i) of Present p \<Rightarrow> p | _ \<Rightarrow> 0)"

text \<open>
  The change-failure rate as the specification words it: the released bugs are the bugs
  that are released issues, and the rate is 0 without released issues and otherwise 100
  times their number over the number of released issues, rounded to one decimal place.
  \<open>changeFailureRate_spec xs v\<close>: the number \<open>v\<close> is that rate for the issues \<open>xs\<close>.
\<close>

definition changeFailureRate_spec :: "issue list \<Rightarrow> number \<Rightarrow> bool" where
  "changeFailureRate_spec xs v =
     (case v of
        Num r \<Rightarrow>
          (if filter released xs = [] then r = 0
           else nearest_tenth
                  (100 * of_nat (length (filter (\<lambda>i. is_bug i \<and> released i) xs))
                     / of_nat (length (filter released xs))) r)
      | _ \<Rightarrow> False)"

text \<open>
  The timestamps of an issue parse: neither \<open>created\<close> nor \<open>resolutiondate\<close> holds a
  value that \<open>Date\<close> cannot read, and every history of the changelog has a \<open>created\<close>
  that \<open>Date\<close> reads as an instant.
\<close>

fun dated :: "stamp nullable \<Rightarrow> bool" where
  "dated (Present (Instant t)) = True"
| "dated v = False"

definition timestamps_parse :: "issue \<Rightarrow> bool" where
  "timestamps_parse i \<longleftrightarrow>
     created (issue_fields i) \<noteq> Present Unparsable
     \<and> resolutiondate (issue_fields i) \<noteq> Present Unparsable
     \<and> (case changelog i of
          Present c \<Rightarrow>
            (case histories c of
               Present hs \<Rightarrow> list_all (\<lambda>h. dated (history.created h)) hs
             | _ \<Rightarrow> True)
        | _ \<Rightarrow> True)"

subsection \<open>Example inputs\<close>

definition day :: int where
  "day = 1000 * 60 * 60 * 24"

definition mk_issue ::
  "string \<Rightarrow> string \<Rightarrow> stamp nullable \<Rightarrow> stamp nullable \<Rightarrow> rat nullable \<Rightarrow> changelog nullable \<Rightarrow> issue" where
  "mk_issue st ty cr rs sp cl =
     \<lparr>issue_fields =
        \<lparr>status = \<lparr>name = st\<rparr>, issuetype = \<lparr>name = ty\<rparr>, created = cr,
         resolutiondate = rs, customfield_10024 = sp\<rparr>,
      changelog = cl\<rparr>"

text \<open>A changelog with one history: a transition to \<open>In Development\<close> at day 2.\<close>

definition dev_at_day_2 :: "changelog nullable" where
  "dev_at_day_2 =
     Present \<lparr>histories = Present
       [\<lparr>history.created = Present (Instant (2 * day)),
         items = [\<lparr>field = ''status'', toString = ''In Development''\<rparr>]\<rparr>]\<rparr>"

text \<open>
  The specification's lead-time scenario: a released issue resolved at day 10 whose
  changelog has a transition to \<open>In Development\<close> at day 2.
\<close>

definition scenario_issue :: issue where
  "scenario_issue =
     mk_issue ''Released'' ''Task'' (Present (Instant 0)) (Present (Instant (10 * day)))
       Undefined dev_at_day_2"

text \<open>
  Issues with status \<open>Released\<close>: a task and a bug with a resolution timestamp, a bug
  without one (\<open>resolutiondate: null\<close>), and a bug that went to \<open>In Development\<close> at
  day 2 and whose \<open>resolutiondate\<close> is a text that \<open>Date\<close> cannot read.
\<close>

definition resolved_task :: issue where
  "resolved_task =
     mk_issue ''Released'' ''Task'' (Present (Instant 0)) (Present (Instant day)) Null Undefined"

definition resolved_bug :: issue where
  "resolved_bug =
     mk_issue ''Released'' ''Bug'' (Present (Instant 0)) (Present (Instant day)) Null Undefined"

definition unresolved_bug :: issue where
  "unresolved_bug = mk_issue ''Released'' ''Bug'' (Present (Instant 0)) Null Null Undefined"

definition garbled_bug :: issue where
  "garbled_bug =
     mk_issue ''Released'' ''Bug'' (Present (Instant 0)) (Present Unparsable) Null dev_at_day_2"




text \<open>
  The clause one date bound adds to the query: nothing for a missing or empty bound,
  otherwise \<open>AND created <op> "<date>"\<close>.
\<close>

fun created_bound :: "string \<Rightarrow> string option \<Rightarrow> string" where
  "created_bound op None = []"
| \<open>created_bound op (Some d) =
     (if d = [] then [] else '' AND created '' @ op @ '' "'' @ d @ ''"'')\<close>

text \<open>
  Two upstreams: one answers every search with an ok response holding one issue and the
  total 7; the other does the same except for the health matrix's query for project
  \<open>DMM\<close>, which it answers with status 401.
\<close>

definition upstream_ok :: upstream where
  "upstream_ok jql field_list =
     Inr \<lparr>ok = True, http_status = 200, body_text = [],
          json = Inr \<lparr>issues = [resolved_task], total_field = 7\<rparr>\<rparr>"

definition upstream_dmm_401 :: upstream where
  "upstream_dmm_401 jql field_list =
     (if jql = ''project = DMM AND created >= -30d''
      then Inr \<lparr>ok = False, http_status = 401, body_text = ''Unauthorized'',
                json = Inl ''Unexpected token''\<rparr>
      else upstream_ok jql field_list)"

section \<open>Rounding\<close>

lemma toFixed1_nonneg: "0 \<le> x \<Longrightarrow> parseFloat (toFixed1 (Num x)) = Num (round1 x)"
  by (simp add: round1_def round_def)

lemma round1_nonneg: "0 \<le> x \<Longrightarrow> 0 \<le> round1 x"
  by (simp add: round1_def round_def)

lemma nearest_tenth_round1: "nearest_tenth x (round1 x)"
proof -
  have "\<bar>of_int (round (x * 10)) - x * 10\<bar> \<le> 1 / 2"
    by (rule of_int_round_abs_le)
  then have "\<bar>round1 x - x\<bar> \<le> 1 / 20"
    by (simp add: round1_def field_simps)
  then show ?thesis
    by (simp add: nearest_tenth_def round1_def)
qed

lemma nearest_tenth_minus:
  assumes "nearest_tenth (- x) r"
  shows "nearest_tenth x (- r)"
proof -
  from assms [unfolded nearest_tenth_def]
  have whole: "of_int \<lfloor>r * 10\<rfloor> = r * 10" and near: "\<bar>r - (- x)\<bar> \<le> 1 / 20"
    by blast+
  have "of_int (- \<lfloor>r * 10\<rfloor>) = - (r * 10)"
    by (simp only: of_int_minus whole)
  then have "- r * 10 = of_int (- \<lfloor>r * 10\<rfloor>)"
    by (simp only: mult_minus_left)
  then have "of_int \<lfloor>- r * 10\<rfloor> = - r * 10"
    by (simp only: floor_of_int)
  moreover have "\<bar>- r - x\<bar> = \<bar>r - (- x)\<bar>"
    by (simp add: abs_minus_commute)
  ultimately show ?thesis
    using near by (simp add: nearest_tenth_def)
qed

lemma toFixed1_nearest: "\<exists>r. parseFloat (toFixed1 (Num x)) = Num r \<and> nearest_tenth x r"
proof (cases "x < 0")
  case True
  have "parseFloat (toFixed1 (Num x)) = Num (- round1 (- x))"
    using True by (simp add: round1_def round_def)
  moreover have "nearest_tenth x (- round1 (- x))"
    by (rule nearest_tenth_minus) (rule nearest_tenth_round1)
  ultimately show ?thesis by blast
next
  case False
  then have "parseFloat (toFixed1 (Num x)) = Num (round1 x)"
    by (simp add: toFixed1_nonneg del: toFixed1.simps)
  with nearest_tenth_round1 [of x] show ?thesis by blast
qed

lemma rounded_mean_mean1: "rounded_mean ds (mean1 ds)"
proof (cases "ds = []")
  case True
  then show ?thesis by (simp add: rounded_mean_def mean1_def)
next
  case False
  then have len: "0 < length ds" by simp
  show ?thesis
  proof (cases "num_sum ds")
    case (Num s)
    from toFixed1_nearest [of "s / of_nat (length ds)"]
    obtain r where "parseFloat (toFixed1 (Num (s / of_nat (length ds)))) = Num r"
      and "nearest_tenth (s / of_nat (length ds)) r"
      by blast
    with False Num show ?thesis
      by (simp add: rounded_mean_def mean1_def del: toFixed1.simps parseFloat.simps)
  qed (use False in \<open>simp_all add: rounded_mean_def mean1_def\<close>)
qed

section \<open>Binary64 addition of whole numbers\<close>






section \<open>Day counts\<close>

lemma time_of_cases: "time_of v = NaN \<or> (\<exists>t. time_of v = Num (of_int t))"
  by (cases v rule: newDate.cases) (simp_all add: time_of_def)

lemma calculateDaysBetween_eq:
  "calculateDaysBetween (Date (time_of u)) (Date (time_of v)) =
     days_between (time_of u) (time_of v)"
  using time_of_cases [of u] time_of_cases [of v]
  by (auto simp: calculateDaysBetween_def)

lemma newDate_time_of: "newDate v = Date (time_of v)"
  by (simp add: time_of_def)

lemma days_between_cases:
  "days_between a b = NaN \<or> (\<exists>n. days_between a b = Num n \<and> 0 \<le> n)"
  by (cases "(a, b)" rule: days_between.cases) simp_all

section \<open>The status scan\<close>

lemma find_in_items_eq:
  "find_in_items h its s =
     (if list_ex (\<lambda>it. field it = ''status'' \<and> toString it = s) its
      then Some (Date (time_of (history.created h))) else None)"
  by (induction its) (simp_all add: newDate_time_of)

lemma find_in_histories_eq:
  "find_in_histories hs s =
     map_option (\<lambda>h. Date (time_of (history.created h)))
       (List.find (\<lambda>h. list_ex (\<lambda>it. field it = ''status'' \<and> toString it = s) (items h)) hs)"
  by (induction hs) (simp_all add: find_in_items_eq)

lemma findStatusChangeTime_eq:
  "findStatusChangeTime (changelog i) s = map_option Date (first_transition i s)"
  by (simp add: findStatusChangeTime_def first_transition_def find_in_histories_eq
      option.map_comp comp_def split: nullable.splits)

lemma first_transition_time:
  "first_transition i s = Some a \<Longrightarrow> \<exists>v. a = time_of v"
  by (auto simp: first_transition_def split: nullable.splits)

section \<open>The two accumulating loops\<close>

lemma released_filter:
  "filter (\<lambda>i. name (status (issue_fields i)) = ''Released''
               \<and> truthy (resolutiondate (issue_fields i))) xs = filter released xs"
  by (rule filter_cong [OF refl]) (simp add: released_def)

lemma leadTimeStep_released:
  assumes "released i"
  shows "leadTimeStep i (t, c) =
     (case lead_days i of Some d \<Rightarrow> (num_add t d, c + 1) | None \<Rightarrow> (t, c))"
proof (cases "first_transition i ''In Development''")
  case None
  with assms show ?thesis
    by (simp add: leadTimeStep_def lead_days_def findStatusChangeTime_eq)
next
  case (Some a)
  from first_transition_time [OF Some] obtain v where a: "a = time_of v" ..
  from assms Some show ?thesis
    by (simp add: leadTimeStep_def lead_days_def findStatusChangeTime_eq a newDate_time_of
        calculateDaysBetween_eq)
qed

lemma lead_days_not_released: "\<not> released i \<Longrightarrow> lead_days i = None"
  by (simp add: lead_days_def)

lemma fold_leadTimeStep:
  "fold leadTimeStep (filter released xs) (t, c) =
     (foldl num_add t (List.map_filter lead_days xs), c + length (List.map_filter lead_days xs))"
proof (induction xs arbitrary: t c)
  case Nil
  show ?case by simp
next
  case (Cons x xs)
  show ?case
  proof (cases "released x")
    case True
    then show ?thesis
      by (cases "lead_days x") (simp_all add: leadTimeStep_released Cons.IH)
  next
    case False
    then show ?thesis
      by (simp add: Cons.IH lead_days_not_released)
  qed
qed

lemma bug_filter:
  "filter (\<lambda>b. name (status (issue_fields b)) = ''Released'')
     (filter (\<lambda>i. name (issuetype (issue_fields i)) = ''Bug'') xs) =
   filter (\<lambda>i. is_bug i \<and> name (status (issue_fields i)) = ''Released'') xs"
  by (simp add: is_bug_def)

lemma recoveryStep_eq:
  "is_bug b \<Longrightarrow> name (status (issue_fields b)) = ''Released'' \<Longrightarrow>
   recoveryStep b (t, c) =
     (case recovery_hours b of Some h \<Rightarrow> (num_add t h, c + 1) | None \<Rightarrow> (t, c))"
  by (simp add: recoveryStep_def recovery_hours_def newDate_time_of calculateDaysBetween_eq)

lemma fold_recoveryStep:
  "fold recoveryStep
     (filter (\<lambda>i. is_bug i \<and> name (status (issue_fields i)) = ''Released'') xs) (t, c) =
     (foldl num_add t (List.map_filter recovery_hours xs),
      c + length (List.map_filter recovery_hours xs))"
proof (induction xs arbitrary: t c)
  case Nil
  show ?case by simp
next
  case (Cons x xs)
  show ?case
  proof (cases "is_bug x \<and> name (status (issue_fields x)) = ''Released''")
    case True
    then show ?thesis
      by (cases "recovery_hours x") (simp_all add: recoveryStep_eq Cons.IH)
  next
    case False
    then have "recovery_hours x = None"
      by (auto simp: recovery_hours_def)
    with False show ?thesis
      by (auto simp: Cons.IH)
  qed
qed

lemma fold_points:
  "fold (\<lambda>issue sum. add64 sum (points (customfield_10024 (issue_fields issue)))) xs a =
     foldl add64 a (map (\<lambda>i. Num (story_points i)) xs)"
proof (induction xs arbitrary: a)
  case Nil
  show ?case by simp
next
  case (Cons x xs)
  have "points (customfield_10024 (issue_fields x)) = Num (story_points x)"
    by (cases "customfield_10024 (issue_fields x)") (simp_all add: story_points_def)
  then show ?case
    by (simp add: Cons.IH)
qed

section \<open>The five results\<close>

lemma calculateDORAMetrics_eq:
  "calculateDORAMetrics xs =
     \<lparr>leadTime = mean1 (List.map_filter lead_days xs),
      deploymentFrequency =
        parseFloat (toFixed1 (num_div (Num (of_nat (length (filter released xs)))) 4)),
      changeFailureRate =
        parseFloat
          (if length (filter released xs) > 0
           then toFixed1
                  (num_mul
                     (num_div
                        (Num (of_nat (length (filter (\<lambda>i. is_bug i \<and> name (status (issue_fields i)) = ''Released'') xs))))
                        (of_nat (length (filter released xs))))
                     100)
           else Tenths 0),
      recoveryTime = mean1 (List.map_filter recovery_hours xs),
      velocity = foldl add64 (Num 0) (map (\<lambda>i. Num (story_points i)) xs)\<rparr>"
  unfolding calculateDORAMetrics_def Let_def released_filter bug_filter fold_leadTimeStep
    fold_recoveryStep fold_points prod.case mean1_def num_sum_def
  by (simp only: add_0)

lemma deploymentFrequency_eq:
  "deploymentFrequency (calculateDORAMetrics xs) =
     Num (round1 (of_nat (length (filter released xs)) / 4))"
  by (simp add: calculateDORAMetrics_eq toFixed1_nonneg del: toFixed1.simps)

lemma changeFailureRate_eq:
  "changeFailureRate (calculateDORAMetrics xs) =
     (if filter released xs = [] then Num 0
      else Num (round1
                 (100 * of_nat (length (filter (\<lambda>i. is_bug i \<and> name (status (issue_fields i)) = ''Released'') xs))
                    / of_nat (length (filter released xs)))))"
proof -
  let ?q = "100 * of_nat (length (filter (\<lambda>i. is_bug i \<and> name (status (issue_fields i)) = ''Released'') xs))
              / (of_nat (length (filter released xs)) :: rat)"
  have "0 \<le> ?q" by simp
  then show ?thesis
    by (simp add: calculateDORAMetrics_eq toFixed1_nonneg mult.commute del: toFixed1.simps)
qed

section \<open>Means without and with an invalid date\<close>

lemma num_add_NaN_right: "num_add x NaN = NaN"
  by (cases x) simp_all

lemma foldl_num_add_NaN: "foldl num_add NaN ds = NaN"
  by (induction ds) simp_all

lemma foldl_num_add_has_NaN: "NaN \<in> set ds \<Longrightarrow> foldl num_add t ds = NaN"
proof (induction ds arbitrary: t)
  case Nil
  then show ?case by simp
next
  case (Cons d ds)
  show ?case
  proof (cases "d = NaN")
    case True
    then show ?thesis
      by (simp add: num_add_NaN_right foldl_num_add_NaN)
  next
    case False
    with Cons.prems have "NaN \<in> set ds" by auto
    from Cons.IH [OF this] show ?thesis by simp
  qed
qed

lemma foldl_num_add_nonneg:
  "\<forall>d\<in>set ds. \<exists>n. d = Num n \<and> 0 \<le> n \<Longrightarrow> 0 \<le> a \<Longrightarrow>
   \<exists>s. foldl num_add (Num a) ds = Num s \<and> 0 \<le> s"
proof (induction ds arbitrary: a)
  case Nil
  then show ?case by simp
next
  case (Cons d ds)
  from Cons.prems(1) obtain n where n: "d = Num n" "0 \<le> n"
    by auto
  from Cons.prems(1) have rest: "\<forall>d\<in>set ds. \<exists>n. d = Num n \<and> 0 \<le> n"
    by simp
  from n Cons.prems(2) have "0 \<le> a + n" by simp
  from Cons.IH [OF rest this] n show ?case by simp
qed

lemma mean1_NaN: "NaN \<in> set ds \<Longrightarrow> mean1 ds = NaN"
proof -
  assume has: "NaN \<in> set ds"
  then have "ds \<noteq> []" by auto
  with foldl_num_add_has_NaN [OF has, of "Num 0"] show ?thesis
    by (simp add: mean1_def num_sum_def)
qed

lemma mean1_nonneg:
  assumes "\<forall>d\<in>set ds. \<exists>n. d = Num n \<and> 0 \<le> n"
  shows "\<exists>r. mean1 ds = Num r \<and> 0 \<le> r"
proof (cases "ds = []")
  case True
  then show ?thesis by (simp add: mean1_def)
next
  case False
  from foldl_num_add_nonneg [OF assms, of 0]
  obtain s where s: "num_sum ds = Num s" "0 \<le> s"
    by (auto simp: num_sum_def)
  then have "(0::rat) \<le> s / of_nat (length ds)"
    by simp
  from toFixed1_nonneg [OF this] round1_nonneg [OF this] False s show ?thesis
    by (simp add: mean1_def del: toFixed1.simps parseFloat.simps)
qed

lemma lead_days_cases:
  "lead_days i = Some d \<Longrightarrow> d = NaN \<or> (\<exists>n. d = Num n \<and> 0 \<le> n)"
  using days_between_cases by (auto simp: lead_days_def split: if_splits)

lemma recovery_hours_cases:
  assumes "recovery_hours i = Some d"
  shows "d = NaN \<or> (\<exists>n. d = Num n \<and> 0 \<le> n)"
proof -
  let ?days = "days_between (time_of (created (issue_fields i)))
                 (time_of (resolutiondate (issue_fields i)))"
  from assms have d: "d = num_mul ?days 24"
    by (simp add: recovery_hours_def split: if_splits)
  from days_between_cases [of "time_of (created (issue_fields i))"
      "time_of (resolutiondate (issue_fields i))"]
  show ?thesis
    by (auto simp: d)
qed

lemma mean1_cases:
  assumes "\<forall>d\<in>set ds. d = NaN \<or> (\<exists>n. d = Num n \<and> 0 \<le> n)"
  shows "if NaN \<in> set ds then mean1 ds = NaN else (\<exists>r. mean1 ds = Num r \<and> 0 \<le> r)"
proof (cases "NaN \<in> set ds")
  case True
  then show ?thesis by (simp add: mean1_NaN)
next
  case False
  with assms have "\<forall>d\<in>set ds. \<exists>n. d = Num n \<and> 0 \<le> n"
    by metis
  from mean1_nonneg [OF this] False show ?thesis by simp
qed

lemma map_filter_lead_days_cases:
  "\<forall>d\<in>set (List.map_filter lead_days xs). d = NaN \<or> (\<exists>n. d = Num n \<and> 0 \<le> n)"
proof
  fix d assume "d \<in> set (List.map_filter lead_days xs)"
  then obtain i where "lead_days i = Some d"
    by (auto simp: List.map_filter_def)
  then show "d = NaN \<or> (\<exists>n. d = Num n \<and> 0 \<le> n)"
    by (rule lead_days_cases)
qed

lemma map_filter_recovery_hours_cases:
  "\<forall>d\<in>set (List.map_filter recovery_hours xs). d = NaN \<or> (\<exists>n. d = Num n \<and> 0 \<le> n)"
proof
  fix d assume "d \<in> set (List.map_filter recovery_hours xs)"
  then obtain i where "recovery_hours i = Some d"
    by (auto simp: List.map_filter_def)
  then show "d = NaN \<or> (\<exists>n. d = Num n \<and> 0 \<le> n)"
    by (rule recovery_hours_cases)
qed

lemma time_of_parsed:
  "truthy v \<Longrightarrow> v \<noteq> Present Unparsable \<Longrightarrow> \<exists>t. time_of v = Num (of_int t)"
  by (cases v rule: newDate.cases) (simp_all add: time_of_def)

lemma time_of_dated: "dated v \<Longrightarrow> \<exists>t. time_of v = Num (of_int t)"
  by (cases v rule: newDate.cases) (simp_all add: time_of_def)

lemma first_transition_dated:
  assumes "timestamps_parse i" "first_transition i s = Some a"
  shows "\<exists>t. a = Num (of_int t)"
proof -
  from assms(2) obtain c hs h where c: "changelog i = Present c" and hs: "histories c = Present hs"
    and h: "List.find (\<lambda>h. list_ex (\<lambda>it. field it = ''status'' \<and> toString it = s) (items h)) hs = Some h"
    and a: "a = time_of (history.created h)"
    by (auto simp: first_transition_def split: nullable.splits)
  from h have "h \<in> set hs"
    by (auto simp: find_Some_iff)
  with assms(1) c hs have "dated (history.created h)"
    by (simp add: timestamps_parse_def list_all_iff)
  from time_of_dated [OF this] a show ?thesis by simp
qed

lemma lead_days_parsed:
  assumes "timestamps_parse i"
  shows "lead_days i \<noteq> Some NaN"
proof
  assume nan: "lead_days i = Some NaN"
  then have rel: "released i"
    by (simp add: lead_days_def split: if_splits)
  with nan obtain a where a: "first_transition i ''In Development'' = Some a"
    and d: "days_between a (time_of (resolutiondate (issue_fields i))) = NaN"
    by (auto simp: lead_days_def)
  from first_transition_dated [OF assms a] obtain t where t: "a = Num (of_int t)" ..
  from rel assms have "truthy (resolutiondate (issue_fields i))"
    and "resolutiondate (issue_fields i) \<noteq> Present Unparsable"
    by (simp_all add: released_def timestamps_parse_def)
  from time_of_parsed [OF this] obtain r
    where "time_of (resolutiondate (issue_fields i)) = Num (of_int r)" ..
  with d t show False by simp
qed

lemma recovery_hours_parsed:
  assumes "timestamps_parse i"
  shows "recovery_hours i \<noteq> Some NaN"
proof
  assume nan: "recovery_hours i = Some NaN"
  then have cr: "truthy (created (issue_fields i))"
    and rs: "truthy (resolutiondate (issue_fields i))"
    and d: "num_mul (days_between (time_of (created (issue_fields i)))
                       (time_of (resolutiondate (issue_fields i)))) 24 = NaN"
    by (simp_all add: recovery_hours_def split: if_splits)
  from assms have "created (issue_fields i) \<noteq> Present Unparsable"
    and "resolutiondate (issue_fields i) \<noteq> Present Unparsable"
    by (simp_all add: timestamps_parse_def)
  with time_of_parsed [OF cr] time_of_parsed [OF rs] obtain c r
    where "time_of (created (issue_fields i)) = Num (of_int c)"
      and "time_of (resolutiondate (issue_fields i)) = Num (of_int r)"
    by blast
  with d show False by simp
qed

lemma parsed_lists:
  assumes "list_all timestamps_parse xs"
  shows "NaN \<notin> set (List.map_filter lead_days xs)"
    and "NaN \<notin> set (List.map_filter recovery_hours xs)"
  using assms lead_days_parsed recovery_hours_parsed
  by (auto simp: List.map_filter_def list_all_iff)


section \<open>Claims about the metrics\<close>

text \<open>
  Claim C5. For every list of issues, \<open>deploymentFrequency\<close> is the number of released
  issues (status label \<open>Released\<close> and a resolution timestamp) divided by the constant
  4 and rounded to one decimal place. The function's only argument is the list of
  issues, so no date range of the request can enter the divisor.
\<close>

theorem deploymentFrequency_quarter_of_released:
  "deploymentFrequency (calculateDORAMetrics xs) =
     Num (round1 (of_nat (length (filter released xs)) / 4))"
  by (rule deploymentFrequency_eq)



text \<open>
  Claim C3. The lead time of a released issue is the number of days, rounded up, between
  its resolution timestamp and the timestamp of the first history, in the order given,
  that holds a status transition to \<open>In Development\<close>; a released issue without such a
  transition has none. \<open>leadTime\<close> is the mean of the lead times that exist, rounded to
  one decimal place, and 0 when there is none. For the one released issue resolved at
  day 10 that went to \<open>In Development\<close> at day 2 it is 8. (Where one of the two
  timestamps is a value that \<open>Date\<close> cannot read, the difference and with it the mean
  are \<open>NaN\<close>.)
\<close>

theorem leadTime_mean_from_first_transition:
  "rounded_mean (List.map_filter lead_days xs) (leadTime (calculateDORAMetrics xs))
   \<and> leadTime (calculateDORAMetrics [scenario_issue]) = Num 8"
proof
  show "rounded_mean (List.map_filter lead_days xs) (leadTime (calculateDORAMetrics xs))"
    by (simp add: calculateDORAMetrics_eq rounded_mean_mean1)
  show "leadTime (calculateDORAMetrics [scenario_issue]) = Num 8"
    by code_simp
qed

text \<open>
  Claim C4. The recovery time of a bug with status \<open>Released\<close> that has a creation and
  a resolution timestamp is 24 times the number of days, rounded up, between the two.
  \<open>recoveryTime\<close> is the mean of these hours over all such bugs, rounded to one decimal
  place, and the number 0 when there is no such bug, as for the list of a released task
  and a bug with status \<open>Released\<close> that has no resolution timestamp. (Where one of
  the two timestamps is a value that \<open>Date\<close> cannot read, the difference and with it
  the mean are \<open>NaN\<close>.)
\<close>

theorem recoveryTime_mean_of_bug_hours:
  "rounded_mean (List.map_filter recovery_hours xs) (recoveryTime (calculateDORAMetrics xs))
   \<and> recoveryTime (calculateDORAMetrics [resolved_task, unresolved_bug]) = Num 0"
proof
  show "rounded_mean (List.map_filter recovery_hours xs) (recoveryTime (calculateDORAMetrics xs))"
    by (simp add: calculateDORAMetrics_eq rounded_mean_mean1)
  show "recoveryTime (calculateDORAMetrics [resolved_task, unresolved_bug]) = Num 0"
    by code_simp
qed

text \<open>
  Claim C10, as stated: for every list of issues the four results \<open>leadTime\<close>,
  \<open>deploymentFrequency\<close>, \<open>changeFailureRate\<close> and \<open>recoveryTime\<close> are finite numbers
  that are not negative, never \<open>NaN\<close>. It fails for a bug with status \<open>Released\<close> that
  went to \<open>In Development\<close> and whose \<open>resolutiondate\<close> is a text that \<open>Date\<close> cannot
  read: the text is truthy, its date is the invalid date, and both means are \<open>NaN\<close>.
\<close>

theorem metrics_NaN_on_unparsable_resolutiondate:
  "leadTime (calculateDORAMetrics [garbled_bug]) = NaN
   \<and> recoveryTime (calculateDORAMetrics [garbled_bug]) = NaN"
  by code_simp

text \<open>
  Claim C10, amended. For every list of issues, \<open>deploymentFrequency\<close> and
  \<open>changeFailureRate\<close> are finite numbers that are not negative. \<open>leadTime\<close> is
  \<open>NaN\<close> when one of the lead times that enter its mean is taken from a timestamp that
  \<open>Date\<close> cannot read, and a finite number that is not negative otherwise;
  \<open>recoveryTime\<close> likewise, for the recovery times. So all four are finite and not
  negative for every list in which no \<open>created\<close> and no \<open>resolutiondate\<close> holds a value
  that \<open>Date\<close> cannot read and every changelog history has a \<open>created\<close> that \<open>Date\<close>
  reads.
\<close>

theorem metrics_nonnegative_unless_unparsable:
  "(\<exists>d f. deploymentFrequency (calculateDORAMetrics xs) = Num d \<and> 0 \<le> d
         \<and> changeFailureRate (calculateDORAMetrics xs) = Num f \<and> 0 \<le> f)
   \<and> (if NaN \<in> set (List.map_filter lead_days xs)
       then leadTime (calculateDORAMetrics xs) = NaN
       else (\<exists>l. leadTime (calculateDORAMetrics xs) = Num l \<and> 0 \<le> l))
   \<and> (if NaN \<in> set (List.map_filter recovery_hours xs)
       then recoveryTime (calculateDORAMetrics xs) = NaN
       else (\<exists>r. recoveryTime (calculateDORAMetrics xs) = Num r \<and> 0 \<le> r))
   \<and> (list_all timestamps_parse xs \<longrightarrow>
         (\<exists>l r. leadTime (calculateDORAMetrics xs) = Num l \<and> 0 \<le> l
               \<and> recoveryTime (calculateDORAMetrics xs) = Num r \<and> 0 \<le> r))"
proof (intro conjI impI)
  have "0 \<le> round1 (of_nat (length (filter released xs)) / 4)"
    by (rule round1_nonneg) simp
  moreover have "\<exists>f. changeFailureRate (calculateDORAMetrics xs) = Num f \<and> 0 \<le> f"
    by (simp add: changeFailureRate_eq round1_nonneg)
  ultimately
  show "\<exists>d f. deploymentFrequency (calculateDORAMetrics xs) = Num d \<and> 0 \<le> d
         \<and> changeFailureRate (calculateDORAMetrics xs) = Num f \<and> 0 \<le> f"
    by (auto simp: deploymentFrequency_eq)
  show lead: "if NaN \<in> set (List.map_filter lead_days xs)
       then leadTime (calculateDORAMetrics xs) = NaN
       else (\<exists>l. leadTime (calculateDORAMetrics xs) = Num l \<and> 0 \<le> l)"
    using mean1_cases [OF map_filter_lead_days_cases, of xs]
    by (simp add: calculateDORAMetrics_eq)
  show recovery: "if NaN \<in> set (List.map_filter recovery_hours xs)
       then recoveryTime (calculateDORAMetrics xs) = NaN
       else (\<exists>r. recoveryTime (calculateDORAMetrics xs) = Num r \<and> 0 \<le> r)"
    using mean1_cases [OF map_filter_recovery_hours_cases, of xs]
    by (simp add: calculateDORAMetrics_eq)
  show "\<exists>l r. leadTime (calculateDORAMetrics xs) = Num l \<and> 0 \<le> l
               \<and> recoveryTime (calculateDORAMetrics xs) = Num r \<and> 0 \<le> r"
    if "list_all timestamps_parse xs"
    using lead recovery parsed_lists [OF that] by auto
qed

theorem metrics_nonnegative_unless_unparsable_witness:
  "list_all timestamps_parse [scenario_issue, resolved_bug]
   \<and> (\<exists>l r. leadTime (calculateDORAMetrics [scenario_issue, resolved_bug]) = Num l \<and> 0 \<le> l
            \<and> recoveryTime (calculateDORAMetrics [scenario_issue, resolved_bug]) = Num r \<and> 0 \<le> r)"
proof -
  have parse: "list_all timestamps_parse [scenario_issue, resolved_bug]"
    by (simp add: timestamps_parse_def scenario_issue_def resolved_bug_def mk_issue_def
        dev_at_day_2_def)
  with metrics_nonnegative_unless_unparsable [of "[scenario_issue, resolved_bug]"]
  show ?thesis
    by blast
qed

text \<open>
  Claim C2. The numerator of the change-failure rate counts the bugs whose status label
  is \<open>Released\<close>, with or without a resolution timestamp, while the denominator counts
  the released issues, which have one: the rate is 0 without released issues and
  otherwise 100 times the one count over the other, rounded to one decimal place. For a
  bug with status \<open>Released\<close> and a resolution timestamp together with a bug with status
  \<open>Released\<close> and none, the rate is 200; so some input gives a rate above 100.
\<close>

theorem changeFailureRate_numerator_ignores_resolution:
  "(\<exists>r. changeFailureRate (calculateDORAMetrics xs) = Num r
        \<and> (if filter released xs = [] then r = 0
            else nearest_tenth
                   (100 * of_nat (length (filter (\<lambda>i. is_bug i \<and> name (status (issue_fields i)) = ''Released'') xs))
                      / of_nat (length (filter released xs))) r))
   \<and> changeFailureRate (calculateDORAMetrics [resolved_bug, unresolved_bug]) = Num 200
   \<and> (\<exists>ys r. changeFailureRate (calculateDORAMetrics ys) = Num r \<and> 100 < r)"
proof -
  have general: "\<exists>r. changeFailureRate (calculateDORAMetrics xs) = Num r
        \<and> (if filter released xs = [] then r = 0
            else nearest_tenth
                   (100 * of_nat (length (filter (\<lambda>i. is_bug i \<and> name (status (issue_fields i)) = ''Released'') xs))
                      / of_nat (length (filter released xs))) r)"
    by (simp add: changeFailureRate_eq nearest_tenth_round1)
  have example: "changeFailureRate (calculateDORAMetrics [resolved_bug, unresolved_bug]) = Num 200"
    by code_simp
  from example have "\<exists>ys r. changeFailureRate (calculateDORAMetrics ys) = Num r \<and> 100 < r"
    by (intro exI [of _ "[resolved_bug, unresolved_bug]"] exI [of _ 200]) simp
  with general example show ?thesis
    by (intro conjI)
qed

text \<open>
  Claim C1. The specification's change-failure rate is 0 without released issues and
  otherwise 100 times the number of released bugs over the number of released issues,
  rounded to one decimal place, a released bug being a bug that is a released issue. For
  a released task together with a bug whose status label is \<open>Released\<close> but which has
  no resolution timestamp, that rate is 0; the function returns 100.
\<close>

theorem changeFailureRate_differs_from_spec:
  "changeFailureRate (calculateDORAMetrics [resolved_task, unresolved_bug]) = Num 100
   \<and> \<not> changeFailureRate_spec [resolved_task, unresolved_bug]
         (changeFailureRate (calculateDORAMetrics [resolved_task, unresolved_bug]))
   \<and> changeFailureRate_spec [resolved_task, unresolved_bug] (Num 0)"
  by code_simp

text \<open>
  The function's rate is the specification's on every list in which each bug with status
  \<open>Released\<close> has a resolution timestamp.
\<close>

lemma changeFailureRate_spec_when_bugs_resolved:
  assumes "\<forall>i\<in>set xs. is_bug i \<and> name (status (issue_fields i)) = ''Released''
             \<longrightarrow> truthy (resolutiondate (issue_fields i))"
  shows "changeFailureRate_spec xs (changeFailureRate (calculateDORAMetrics xs))"
proof -
  have same: "filter (\<lambda>i. is_bug i \<and> name (status (issue_fields i)) = ''Released'') xs =
        filter (\<lambda>i. is_bug i \<and> released i) xs"
    using assms by (intro filter_cong [OF refl]) (auto simp: released_def)
  show ?thesis
    by (simp add: changeFailureRate_eq same changeFailureRate_spec_def nearest_tenth_round1)
qed

text \<open>
  What the test \<open>count > 0\<close> keeps out: the quotient of the empty total by the count 0
  is \<open>NaN\<close>, and so is what \<open>toFixed(1)\<close> and \<open>parseFloat\<close> make of it.
\<close>

lemma unguarded_quotient_NaN: "parseFloat (toFixed1 (num_div (num_sum []) (of_nat (length ([] :: number list))))) = NaN"
  by (simp add: num_sum_def)

section \<open>Claims about the handlers\<close>

lemma matrix_loop_fails:
  "\<exists>p\<in>set ps. \<exists>m. fetchJiraIssues up (matrix_jql p) matrix_fields = Inl m \<Longrightarrow>
   \<exists>m. matrix_loop up ps hm = Inl m"
proof (induction ps arbitrary: hm)
  case Nil
  then show ?case by simp
next
  case (Cons p ps)
  show ?case
  proof (cases "fetchJiraIssues up (matrix_jql p) matrix_fields")
    case (Inl m)
    then show ?thesis by simp
  next
    case (Inr d)
    with Cons.prems have "\<exists>q\<in>set ps. \<exists>m. fetchJiraIssues up (matrix_jql q) matrix_fields = Inl m"
      by auto
    from Cons.IH [OF this] Inr show ?thesis by simp
  qed
qed

lemma matrix_loop_succeeds:
  "\<forall>p\<in>set ps. \<exists>d. fetchJiraIssues up (matrix_jql p) matrix_fields = Inr d \<Longrightarrow>
   \<exists>hm'. matrix_loop up ps hm = Inr hm'
     \<and> (\<forall>q. hm' q =
           (if q \<in> set ps
            then map_option (\<lambda>d. calculateDORAMetrics (issues d))
                   (case fetchJiraIssues up (matrix_jql q) matrix_fields of
                      Inr d \<Rightarrow> Some d | Inl m \<Rightarrow> None)
            else hm q))"
proof (induction ps arbitrary: hm)
  case Nil
  then show ?case by simp
next
  case (Cons p ps)
  from Cons.prems obtain d where d: "fetchJiraIssues up (matrix_jql p) matrix_fields = Inr d"
    by auto
  from Cons.prems have "\<forall>q\<in>set ps. \<exists>d. fetchJiraIssues up (matrix_jql q) matrix_fields = Inr d"
    by simp
  from Cons.IH [OF this, of "hm(p \<mapsto> calculateDORAMetrics (issues d))"]
  obtain hm' where hm': "matrix_loop up ps (hm(p \<mapsto> calculateDORAMetrics (issues d))) = Inr hm'"
    and lookup: "\<And>q. hm' q =
           (if q \<in> set ps
            then map_option (\<lambda>d. calculateDORAMetrics (issues d))
                   (case fetchJiraIssues up (matrix_jql q) matrix_fields of
                      Inr d \<Rightarrow> Some d | Inl m \<Rightarrow> None)
            else (hm(p \<mapsto> calculateDORAMetrics (issues d))) q)"
    by blast
  from d hm' have "matrix_loop up (p # ps) hm = Inr hm'"
    by simp
  moreover have "\<forall>q. hm' q =
           (if q \<in> set (p # ps)
            then map_option (\<lambda>d. calculateDORAMetrics (issues d))
                   (case fetchJiraIssues up (matrix_jql q) matrix_fields of
                      Inr d \<Rightarrow> Some d | Inl m \<Rightarrow> None)
            else hm q)"
    using d by (auto simp: lookup)
  ultimately show ?case by blast
qed

lemma matrix_loop_dom:
  "matrix_loop up ps hm = Inr hm' \<Longrightarrow> dom hm' = dom hm \<union> set ps"
proof (induction ps arbitrary: hm)
  case Nil
  then show ?case by simp
next
  case (Cons p ps)
  show ?case
  proof (cases "fetchJiraIssues up (matrix_jql p) matrix_fields")
    case (Inl m)
    with Cons.prems show ?thesis by simp
  next
    case (Inr d)
    with Cons.prems
    have "matrix_loop up ps (hm(p \<mapsto> calculateDORAMetrics (issues d))) = Inr hm'"
      by simp
    from Cons.IH [OF this] show ?thesis by auto
  qed
qed

text \<open>
  Claim C7. In the health-matrix handler, if the fetch for any one of the six projects
  fails, the response is \<open>{success: false, error, details}\<close> with status 500 and holds
  no project's metrics; if every fetch succeeds, the response is a success with status
  200 whose \<open>data\<close> holds each project's metrics; and the \<open>data\<close> of every success
  has exactly the six keys \<open>DAI\<close>, \<open>DGDPO\<close>, \<open>DMM\<close>, \<open>DE\<close>, \<open>VEH\<close>, \<open>CAT\<close>.
\<close>

theorem health_matrix_all_or_nothing:
  "((\<exists>p\<in>set projects. \<exists>m. fetchJiraIssues up (matrix_jql p) matrix_fields = Inl m) \<longrightarrow>
      (\<exists>m. GET_matrix up = \<lparr>code = 500, body = Failed ''Failed to fetch health matrix'' m\<rparr>))
   \<and> ((\<forall>p\<in>set projects. \<exists>d. fetchJiraIssues up (matrix_jql p) matrix_fields = Inr d) \<longrightarrow>
      (\<exists>hm. GET_matrix up = \<lparr>code = 200, body = Matrix_ok hm\<rparr>
         \<and> dom hm = {''DAI'', ''DGDPO'', ''DMM'', ''DE'', ''VEH'', ''CAT''}
         \<and> (\<forall>p\<in>set projects. \<forall>d. fetchJiraIssues up (matrix_jql p) matrix_fields = Inr d \<longrightarrow>
               hm p = Some (calculateDORAMetrics (issues d)))))
   \<and> (\<forall>hm. body (GET_matrix up) = Matrix_ok hm \<longrightarrow>
         code (GET_matrix up) = 200 \<and> dom hm = {''DAI'', ''DGDPO'', ''DMM'', ''DE'', ''VEH'', ''CAT''})"
proof (intro conjI impI allI)
  assume "\<exists>p\<in>set projects. \<exists>m. fetchJiraIssues up (matrix_jql p) matrix_fields = Inl m"
  from matrix_loop_fails [OF this, of Map.empty]
  show "\<exists>m. GET_matrix up = \<lparr>code = 500, body = Failed ''Failed to fetch health matrix'' m\<rparr>"
    by (auto simp: GET_matrix_def)
next
  assume ok: "\<forall>p\<in>set projects. \<exists>d. fetchJiraIssues up (matrix_jql p) matrix_fields = Inr d"
  from matrix_loop_succeeds [OF this, of Map.empty]
  obtain hm where hm: "matrix_loop up projects Map.empty = Inr hm"
    and lookup: "\<And>q. hm q =
           (if q \<in> set projects
            then map_option (\<lambda>d. calculateDORAMetrics (issues d))
                   (case fetchJiraIssues up (matrix_jql q) matrix_fields of
                      Inr d \<Rightarrow> Some d | Inl m \<Rightarrow> None)
            else None)"
    by auto
  have "dom hm = set projects"
  proof (rule set_eqI)
    fix q
    show "q \<in> dom hm \<longleftrightarrow> q \<in> set projects"
      using ok by (auto simp: lookup dom_def split: if_splits)
  qed
  then have dom: "dom hm = {''DAI'', ''DGDPO'', ''DMM'', ''DE'', ''VEH'', ''CAT''}"
    by (simp add: projects_def)
  have vals: "\<forall>p\<in>set projects. \<forall>d. fetchJiraIssues up (matrix_jql p) matrix_fields = Inr d \<longrightarrow>
               hm p = Some (calculateDORAMetrics (issues d))"
    by (simp add: lookup)
  from hm have "GET_matrix up = \<lparr>code = 200, body = Matrix_ok hm\<rparr>"
    by (simp add: GET_matrix_def)
  with dom vals
  show "\<exists>hm. GET_matrix up = \<lparr>code = 200, body = Matrix_ok hm\<rparr>
         \<and> dom hm = {''DAI'', ''DGDPO'', ''DMM'', ''DE'', ''VEH'', ''CAT''}
         \<and> (\<forall>p\<in>set projects. \<forall>d. fetchJiraIssues up (matrix_jql p) matrix_fields = Inr d \<longrightarrow>
               hm p = Some (calculateDORAMetrics (issues d)))"
    by blast
next
  fix hm
  assume body: "body (GET_matrix up) = Matrix_ok hm"
  then obtain hm' where loop: "matrix_loop up projects Map.empty = Inr hm'"
    by (cases "matrix_loop up projects Map.empty") (simp_all add: GET_matrix_def)
  with body have same: "hm' = hm"
    by (simp add: GET_matrix_def)
  from loop have code: "code (GET_matrix up) = 200"
    by (simp add: GET_matrix_def)
  from loop have "dom hm' = set projects"
    by (auto simp: matrix_loop_dom)
  with same have "dom hm = {''DAI'', ''DGDPO'', ''DMM'', ''DE'', ''VEH'', ''CAT''}"
    by (simp add: projects_def)
  with code show "code (GET_matrix up) = 200"
    and "dom hm = {''DAI'', ''DGDPO'', ''DMM'', ''DE'', ''VEH'', ''CAT''}"
    by simp_all
qed

theorem health_matrix_all_or_nothing_witness:
  "GET_matrix upstream_dmm_401 =
     \<lparr>code = 500, body = Failed ''Failed to fetch health matrix'' ''JIRA API error: 401''\<rparr>
   \<and> (\<exists>hm. GET_matrix upstream_ok = \<lparr>code = 200, body = Matrix_ok hm\<rparr>
          \<and> dom hm = {''DAI'', ''DGDPO'', ''DMM'', ''DE'', ''VEH'', ''CAT''}
          \<and> hm ''CAT'' = Some (calculateDORAMetrics [resolved_task]))
   \<and> code (GET_matrix upstream_ok) = 200"
proof -
  have "show_nat 401 = ''401''"
    by code_simp
  then have dmm: "fetchJiraIssues upstream_dmm_401 (matrix_jql ''DMM'') matrix_fields =
               Inl ''JIRA API error: 401''"
    by (simp add: fetchJiraIssues_def upstream_dmm_401_def matrix_jql_def)
  have before: "fetchJiraIssues upstream_dmm_401 (matrix_jql ''DAI'') matrix_fields =
                  Inr \<lparr>issues = [resolved_task], total_field = 7\<rparr>"
       "fetchJiraIssues upstream_dmm_401 (matrix_jql ''DGDPO'') matrix_fields =
                  Inr \<lparr>issues = [resolved_task], total_field = 7\<rparr>"
    by (simp_all add: fetchJiraIssues_def upstream_dmm_401_def upstream_ok_def matrix_jql_def)
  have "''DMM'' \<in> set projects"
    by (simp add: projects_def)
  with dmm have "\<exists>p\<in>set projects. \<exists>m. fetchJiraIssues upstream_dmm_401 (matrix_jql p) matrix_fields = Inl m"
    by blast
  then have "\<exists>m. GET_matrix upstream_dmm_401 =
      \<lparr>code = 500, body = Failed ''Failed to fetch health matrix'' m\<rparr>"
    by (rule mp [OF conjunct1 [OF health_matrix_all_or_nothing]])
  then obtain m where m: "GET_matrix upstream_dmm_401 =
      \<lparr>code = 500, body = Failed ''Failed to fetch health matrix'' m\<rparr>"
    ..
  have "matrix_loop upstream_dmm_401 projects Map.empty = Inl ''JIRA API error: 401''"
    by (simp add: projects_def dmm before)
  with m have "m = ''JIRA API error: 401''"
    by (simp add: GET_matrix_def)
  with m have failed: "GET_matrix upstream_dmm_401 =
      \<lparr>code = 500, body = Failed ''Failed to fetch health matrix'' ''JIRA API error: 401''\<rparr>"
    by simp
  have fetch_ok: "\<And>p. fetchJiraIssues upstream_ok (matrix_jql p) matrix_fields =
                  Inr \<lparr>issues = [resolved_task], total_field = 7\<rparr>"
    by (simp add: fetchJiraIssues_def upstream_ok_def)
  then have "\<forall>p\<in>set projects. \<exists>d. fetchJiraIssues upstream_ok (matrix_jql p) matrix_fields = Inr d"
    by simp
  then have "\<exists>hm. GET_matrix upstream_ok = \<lparr>code = 200, body = Matrix_ok hm\<rparr>
         \<and> dom hm = {''DAI'', ''DGDPO'', ''DMM'', ''DE'', ''VEH'', ''CAT''}
         \<and> (\<forall>p\<in>set projects. \<forall>d. fetchJiraIssues upstream_ok (matrix_jql p) matrix_fields = Inr d \<longrightarrow>
               hm p = Some (calculateDORAMetrics (issues d)))"
    by (rule mp [OF conjunct1 [OF conjunct2 [OF health_matrix_all_or_nothing]]])
  then obtain hm where hm: "GET_matrix upstream_ok = \<lparr>code = 200, body = Matrix_ok hm\<rparr>"
      "dom hm = {''DAI'', ''DGDPO'', ''DMM'', ''DE'', ''VEH'', ''CAT''}"
      and vals: "\<forall>p\<in>set projects. \<forall>d. fetchJiraIssues upstream_ok (matrix_jql p) matrix_fields = Inr d \<longrightarrow>
               hm p = Some (calculateDORAMetrics (issues d))"
    by (elim exE conjE)
  have "''CAT'' \<in> set projects"
    by (simp add: projects_def)
  with vals have "\<forall>d. fetchJiraIssues upstream_ok (matrix_jql ''CAT'') matrix_fields = Inr d \<longrightarrow>
               hm ''CAT'' = Some (calculateDORAMetrics (issues d))"
    by (rule bspec)
  with fetch_ok have cat: "hm ''CAT'' = Some (calculateDORAMetrics [resolved_task])"
    by simp
  from hm(1) have "body (GET_matrix upstream_ok) = Matrix_ok hm"
    by simp
  with health_matrix_all_or_nothing [of upstream_ok]
  have "code (GET_matrix upstream_ok) = 200"
    by simp
  with failed hm cat show ?thesis
    by (intro conjI exI [of _ hm])
qed

text \<open>
  Claim C8. The health handler is a function of the environment alone: it takes no
  upstream and so makes no network call. \<open>jiraConnected\<close> is true exactly when
  \<open>JIRA_EMAIL\<close> and \<open>JIRA_API_TOKEN\<close> are both set to a non-empty value, and with
  \<open>JIRA_DOMAIN\<close> unset the \<open>domain\<close> field is the text \<open>Not configured\<close>.
\<close>

theorem health_reports_configuration:
  "(jiraConnected (body (GET_health env)) \<longleftrightarrow>
      (\<exists>e t. env ''JIRA_EMAIL'' = Some e \<and> e \<noteq> [] \<and> env ''JIRA_API_TOKEN'' = Some t \<and> t \<noteq> []))
   \<and> (env ''JIRA_DOMAIN'' = None \<longrightarrow> domain (body (GET_health env)) = ''Not configured'')
   \<and> code (GET_health env) = 200
   \<and> health_status (body (GET_health env)) = ''ok''"
  by (cases "env ''JIRA_EMAIL''"; cases "env ''JIRA_API_TOKEN''")
     (simp_all add: GET_health_def)

theorem health_reports_configuration_witness:
  "\<not> jiraConnected (body (GET_health Map.empty))
   \<and> domain (body (GET_health Map.empty)) = ''Not configured''
   \<and> jiraConnected (body (GET_health [''JIRA_EMAIL'' \<mapsto> ''me@example.org'', ''JIRA_API_TOKEN'' \<mapsto> ''secret'']))
   \<and> domain (body (GET_health [''JIRA_EMAIL'' \<mapsto> ''me@example.org'', ''JIRA_API_TOKEN'' \<mapsto> ''secret''])) = ''Not configured''"
  using health_reports_configuration [of Map.empty]
    health_reports_configuration [of "[''JIRA_EMAIL'' \<mapsto> ''me@example.org'', ''JIRA_API_TOKEN'' \<mapsto> ''secret'']"]
  by simp

lemma dora_jql_eq:
  "dora_jql searchParams =
     ''project = '' @ dora_project searchParams
       @ created_bound ''>='' (searchParams ''startDate'')
       @ created_bound ''<='' (searchParams ''endDate'')"
  by (cases "searchParams ''startDate''"; cases "searchParams ''endDate''")
     (simp_all add: dora_jql_def Let_def)

text \<open>
  Claim C9. The single-project handler takes the project \<open>DAI\<close> when the \<open>project\<close>
  parameter is missing and the given project otherwise; its query is the project filter
  followed by \<open>created >= "startDate"\<close> and \<open>created <= "endDate"\<close> for exactly those
  of the two bounds that are given with a non-empty value; and when the fetch succeeds it
  answers with the project, the total the upstream reported and the metrics of the
  issues.
\<close>

theorem dora_query_and_total:
  "(searchParams ''project'' = None \<longrightarrow> dora_project searchParams = ''DAI'')
   \<and> (\<forall>p. searchParams ''project'' = Some p \<and> p \<noteq> [] \<longrightarrow> dora_project searchParams = p)
   \<and> dora_jql searchParams =
       ''project = '' @ dora_project searchParams
         @ created_bound ''>='' (searchParams ''startDate'')
         @ created_bound ''<='' (searchParams ''endDate'')
   \<and> (\<forall>d. fetchJiraIssues_dora up (dora_jql searchParams) dora_fields = Inr d \<longrightarrow>
         GET_dora up searchParams =
           \<lparr>code = 200,
            body = Dora_ok (dora_project searchParams) (total_field d)
                     (calculateDORAMetrics (issues d))\<rparr>)"
  by (simp add: dora_jql_eq dora_project_def GET_dora_def)

theorem dora_query_and_total_witness:
  \<open>dora_project [''startDate'' \<mapsto> ''2024-01-01''] = ''DAI''
   \<and> dora_project [''project'' \<mapsto> ''VEH'', ''endDate'' \<mapsto> ''2024-02-01''] = ''VEH''
   \<and> dora_jql [''startDate'' \<mapsto> ''2024-01-01''] = ''project = DAI AND created >= "2024-01-01"''
   \<and> dora_jql [''project'' \<mapsto> ''VEH'', ''endDate'' \<mapsto> ''2024-02-01''] =
        ''project = VEH AND created <= "2024-02-01"''
   \<and> GET_dora upstream_ok [''startDate'' \<mapsto> ''2024-01-01''] =
        \<lparr>code = 200, body = Dora_ok ''DAI'' 7 (calculateDORAMetrics [resolved_task])\<rparr>\<close>
proof -
  have "fetchJiraIssues_dora upstream_ok (dora_jql [''startDate'' \<mapsto> ''2024-01-01'']) dora_fields =
          Inr \<lparr>issues = [resolved_task], total_field = 7\<rparr>"
    by (simp add: fetchJiraIssues_dora_def upstream_ok_def)
  with dora_query_and_total [of "[''startDate'' \<mapsto> ''2024-01-01'']" upstream_ok]
    dora_query_and_total [of "[''project'' \<mapsto> ''VEH'', ''endDate'' \<mapsto> ''2024-02-01'']" upstream_ok]
  show ?thesis
    by simp
qed

end
